theory Spec2Isabelle
  imports Complex_Main
begin

section \<open>Python values and exceptions\<close>

text \<open>
  Exceptions of the Python sources are values. An \<open>assert\<close> that fails is
  \<open>AssertionError\<close> with a short name of the assertion; the two \<open>raise\<close> statements of
  \<open>JobController.job_partition\<close> carry their message.
\<close>

datatype error =
    AssertionError string
  | JobControllerException string
  | ZeroDivisionError
  | IndexError
  | KeyError
  | TypeError
  | RecvError
  | FileNotFoundError
  | ValueError
  | UserError

text \<open>
  The numbers \<open>job_partition\<close> returns: an integer it was given or computed by \<open>*\<close>, or
  the value of the Python expression \<open>a / b\<close> on two integers, which is kept as the
  pair of its operands (the sources do not fix the interpreter, and what \<open>/\<close> rounds to
  is no part of any property below).
\<close>

datatype pynum = PInt int | Quot int int

section \<open>controller.py: JobController.job_partition\<close>

text \<open>
  \<^verbatim>\<open>job_partition(num_procs, num_nodes, ranks_per_node, machinefile=None)\<close>.
  \<open>None\<close> is \<open>None\<close>; the branches are those of the source, in its order. The last
  \<open>if num_procs is not None\<close> of the source is always true where it is reached.
\<close>

definition py_truediv :: "int \<Rightarrow> int \<Rightarrow> error + pynum" where
  "py_truediv a b = (if b = 0 then Inl ZeroDivisionError else Inr (Quot a b))"

definition job_partition ::
  "int option \<Rightarrow> int option \<Rightarrow> int option \<Rightarrow> string option
     \<Rightarrow> error + (pynum option \<times> pynum option \<times> pynum option)" where
  "job_partition num_procs num_nodes ranks_per_node machinefile =
     (if machinefile \<noteq> None then Inr (None, None, None)
      else if num_procs \<noteq> None \<and> num_nodes \<noteq> None \<and> ranks_per_node \<noteq> None then
        (if the num_procs \<noteq> the num_nodes * the ranks_per_node
         then Inl (JobControllerException ''num_procs does not equal num_nodes*ranks_per_node'')
         else Inr (Some (PInt (the num_procs)), Some (PInt (the num_nodes)),
                   Some (PInt (the ranks_per_node))))
      else if num_procs = None then
        (if num_nodes = None \<or> ranks_per_node = None
         then Inl (JobControllerException
                ''Must set either num_procs or num_nodes/ranks_per_node or machinefile'')
         else Inr (Some (PInt (the num_nodes * the ranks_per_node)),
                   Some (PInt (the num_nodes)), Some (PInt (the ranks_per_node))))
      else
        (if num_nodes = None then
           (if ranks_per_node = None
            then Inr (Some (PInt (the num_procs)), Some (PInt 1), Some (PInt (the num_procs)))
            else (case py_truediv (the num_procs) (the ranks_per_node) of
                    Inl e \<Rightarrow> Inl e
                  | Inr q \<Rightarrow> Inr (Some (PInt (the num_procs)), Some q,
                                  Some (PInt (the ranks_per_node)))))
         else (case py_truediv (the num_procs) (the num_nodes) of
                 Inl e \<Rightarrow> Inl e
               | Inr q \<Rightarrow> Inr (Some (PInt (the num_procs)), Some (PInt (the num_nodes)),
                               Some q))))"

definition is_JobControllerException :: "error + 'a \<Rightarrow> bool" where
  "is_JobControllerException r =
     (case r of Inl (JobControllerException m) \<Rightarrow> True | _ \<Rightarrow> False)"

section \<open>Data of the manager\<close>

type_synonym field = string

text \<open>
  A Python dictionary whose keys are iterated is the list of its items in insertion
  order; \<open>d[k] = v\<close> replaces the value of a key that is there and appends otherwise.
  \<open>persis_info\<close> maps a worker id to such a dictionary; its values are opaque to the
  manager and stand here as integers.
\<close>

type_synonym pdict = "(string \<times> int) list"

type_synonym persis = "int \<rightharpoonup> pdict"

fun dict_set :: "('k \<times> 'v) list \<Rightarrow> 'k \<Rightarrow> 'v \<Rightarrow> ('k \<times> 'v) list" where
  "dict_set [] k v = [(k, v)]"
| "dict_set ((k', v') # kvs) k v =
     (if k' = k then (k, v) # kvs else (k', v') # dict_set kvs k v)"

text \<open>
  Floats of the history array are reals together with NaN; \<open>np.isnan\<close> and \<open>\<le>\<close> on
  them are as in numpy: a comparison with NaN is false.
\<close>

datatype npfloat = NaN | Fin real

fun isnan :: "npfloat \<Rightarrow> bool" where
  "isnan NaN = True"
| "isnan (Fin x) = False"

fun np_le :: "npfloat \<Rightarrow> npfloat \<Rightarrow> bool" where
  "np_le (Fin a) (Fin b) = (a \<le> b)"
| "np_le NaN y = False"
| "np_le (Fin a) NaN = False"

text \<open>
  A structured array is the list of its columns in the order of \<open>dtype.names\<close>.
  Indexing with an integer follows Python: a negative index counts from the end, an index
  out of range raises \<open>IndexError\<close>. A slice \<open>a[:n]\<close> never raises.
\<close>

type_synonym rows = "(field \<times> npfloat list) list"

definition py_index :: "nat \<Rightarrow> int \<Rightarrow> nat option" where
  "py_index n i =
     (if 0 \<le> i \<and> i < int n then Some (nat i)
      else if - int n \<le> i \<and> i < 0 then Some (nat (i + int n))
      else None)"

definition py_slice_to :: "int \<Rightarrow> 'a list \<Rightarrow> 'a list" where
  "py_slice_to n xs =
     (if 0 \<le> n then take (nat n) xs else take (length xs - nat (- n)) xs)"

definition nrows :: "rows \<Rightarrow> nat" where
  "nrows A = (case A of [] \<Rightarrow> 0 | (f, col) # rest \<Rightarrow> length col)"

definition take_rows :: "npfloat list \<Rightarrow> int list \<Rightarrow> npfloat list option" where
  "take_rows col rs =
     (if list_all (\<lambda>r. py_index (length col) r \<noteq> None) rs
      then Some (map (\<lambda>r. col ! the (py_index (length col) r)) rs)
      else None)"

text \<open>\<open>A[fields][rows]\<close>: the columns \<open>fields\<close> at the row indices \<open>rows\<close>.\<close>

fun H_slice :: "rows \<Rightarrow> field list \<Rightarrow> int list \<Rightarrow> error + rows" where
  "H_slice A [] rs = Inr []"
| "H_slice A (f # fs) rs =
     (case map_of A f of
        None \<Rightarrow> Inl KeyError
      | Some col \<Rightarrow>
          (case take_rows col rs of
             None \<Rightarrow> Inl IndexError
           | Some v \<Rightarrow>
               (case H_slice A fs rs of
                  Inl e \<Rightarrow> Inl e
                | Inr rest \<Rightarrow> Inr ((f, v) # rest))))"

text \<open>
  The constants of \<open>libensemble.message_numbers\<close>. That module is not among the
  sources, so its integers are a parameter \<open>mn\<close> of everything that uses them.
\<close>

record message_numbers =
  EVAL_SIM_TAG :: int
  EVAL_GEN_TAG :: int
  FINISHED_PERSISTENT_SIM_TAG :: int
  FINISHED_PERSISTENT_GEN_TAG :: int
  STOP_TAG :: int
  UNSET_TAG :: int
  WORKER_KILL :: int
  WORKER_KILL_ON_ERR :: int
  WORKER_KILL_ON_TIMEOUT :: int
  JOB_FAILED :: int
  WORKER_DONE :: int
  MAN_SIGNAL_FINISH :: int
  MAN_SIGNAL_KILL :: int
  MAN_SIGNAL_REQ_PICKLE_DUMP :: int

text \<open>
  The worker table \<open>W\<close> of \<open>initialize\<close>: one row per worker, with
  \<open>worker_dtype = [worker_id, active, persis_state, blocked]\<close>. Row \<open>w - 1\<close> belongs to
  worker \<open>w\<close>.
\<close>

record worker =
  worker_id :: int
  active :: int
  persis_state :: int
  blocked :: bool

definition W_get :: "worker list \<Rightarrow> int \<Rightarrow> error + worker" where
  "W_get W i = (case py_index (length W) i of None \<Rightarrow> Inl IndexError | Some k \<Rightarrow> Inr (W ! k))"

definition W_set :: "worker list \<Rightarrow> int \<Rightarrow> (worker \<Rightarrow> worker) \<Rightarrow> worker list" where
  "W_set W i f = (case py_index (length W) i of None \<Rightarrow> W | Some k \<Rightarrow> W[k := f (W ! k)])"

definition any_active :: "worker list \<Rightarrow> bool" where
  "any_active W = list_ex (\<lambda>r. active r \<noteq> 0) W"

definition any_idle :: "worker list \<Rightarrow> bool" where
  "any_idle W = list_ex (\<lambda>r. active r = 0) W"

definition active_ids :: "worker list \<Rightarrow> int list" where
  "active_ids W = map worker_id (filter (\<lambda>r. active r > 0) W)"

text \<open>
  A work unit is the dictionary the allocator builds: \<open>tag\<close>, \<open>H_fields\<close> and
  \<open>libE_info\<close>, whose key \<open>H_rows\<close> is always there and whose keys \<open>persistent\<close>
  and \<open>blocking\<close> may be absent (\<open>None\<close>). The manager tests the presence of
  \<open>persistent\<close>, never its value.
\<close>

record libE_info =
  H_rows :: "int list"
  persistent :: "bool option"
  blocking :: "int list option"

record work =
  tag :: int
  H_fields :: "field list"
  libE_info :: libE_info
  work_persis_info :: pdict

text \<open>
  The dictionary a worker sends back. \<open>calc_type\<close> and \<open>calc_status\<close> are read
  unconditionally; the other keys may be absent.
\<close>

record calc_msg =
  calc_type :: int
  calc_status :: int
  calc_out :: "rows option"
  msg_libE_info :: "libE_info option"
  msg_persis_info :: "pdict option"

datatype payload =
    PWork work
  | PRows rows
  | PSignal int
  | PCalc calc_msg
  | PPath string

datatype recv_result = RecvRaises | Recv payload

text \<open>
  The \<open>History\<close> object as the manager reads it: the array \<open>H\<close> and the counters.
  Its class (\<open>history.py\<close>) is not among the sources: the methods the manager calls are
  the parameter \<open>hist_methods\<close>, each a function on the history that may raise.
  numpy arrays are shared, and whether the array \<open>trim_H\<close> returns shares its memory
  with \<open>hist.H\<close> is decided in \<open>history.py\<close>; \<open>write_back\<close> says what the writes
  of a callee to that array do to the history (nothing, if \<open>trim_H\<close> copies).
\<close>

record history =
  hist_H :: rows
  index :: int
  given_count :: int
  sim_count :: int
  offset :: int

record hist_methods =
  update_history_x_out :: "int list \<Rightarrow> int \<Rightarrow> history \<Rightarrow> error + history"
  update_history_f :: "calc_msg \<Rightarrow> history \<Rightarrow> error + history"
  update_history_x_in :: "int \<Rightarrow> rows \<Rightarrow> history \<Rightarrow> error + history"
  trim_H :: "history \<Rightarrow> rows"
  write_back :: "rows \<Rightarrow> history \<Rightarrow> history"

record exit_criteria =
  elapsed_wallclock_time :: "real option"
  sim_max :: "int option"
  gen_max :: "int option"
  stop_val :: "(field \<times> npfloat) option"

text \<open>
  What the manager owns (\<open>W\<close>, \<open>hist\<close>, \<open>persis_info\<close>, the scratch of the queue
  update) and what it does to the outside: the log of \<open>comm.send\<close> calls (destination,
  tag, object; \<open>None\<close> where no tag is given), the broadcasts, the files removed and
  saved, whether \<open>comm.Abort\<close> was called. What comes from outside (probes, receives,
  the clock, file contents) is an oracle \<open>env\<close>, asked with the number of the call.
\<close>

record mdata =
  man_W :: "worker list"
  man_hist :: history
  man_persis_info :: persis
  man_queue_data :: pdict

record io =
  sent :: "(int \<times> int option \<times> payload) list"
  bcasts :: "field list list"
  removed :: "string list"
  saved :: "(string \<times> int) list"
  aborted :: bool
  tick :: nat

record env =
  env_iprobe :: "nat \<Rightarrow> int \<Rightarrow> bool"
  env_recv :: "nat \<Rightarrow> int \<Rightarrow> recv_result"
  env_time :: "nat \<Rightarrow> real"
  env_load :: "nat \<Rightarrow> string \<Rightarrow> payload option"
  env_isfile :: "nat \<Rightarrow> string \<times> int \<Rightarrow> bool"

type_synonym state = "mdata \<times> io"

text \<open>A call returns a value or raises; the state reached is kept in both cases.\<close>

datatype ('a, 's) res = Ok 'a 's | Raise error 's

definition comm_send :: "payload \<Rightarrow> int \<Rightarrow> int option \<Rightarrow> io \<Rightarrow> io" where
  "comm_send obj dest tg c = c\<lparr>sent := sent c @ [(dest, tg, obj)]\<rparr>"

definition next_tick :: "io \<Rightarrow> io" where
  "next_tick c = c\<lparr>tick := Suc (tick c)\<rparr>"

definition and_then :: "('a, 's) res \<Rightarrow> ('a \<Rightarrow> 's \<Rightarrow> ('b, 's) res) \<Rightarrow> ('b, 's) res" where
  "and_then r f = (case r of Raise e s \<Rightarrow> Raise e s | Ok a s \<Rightarrow> f a s)"

definition on_data :: "(mdata \<Rightarrow> ('a, mdata) res) \<Rightarrow> state \<Rightarrow> ('a, state) res" where
  "on_data f s =
     (case f (fst s) of Ok a d \<Rightarrow> Ok a (d, snd s) | Raise e d \<Rightarrow> Raise e (d, snd s))"

definition on_io :: "(io \<Rightarrow> ('a, io) res) \<Rightarrow> state \<Rightarrow> ('a, state) res" where
  "on_io f s =
     (case f (snd s) of Ok a c \<Rightarrow> Ok a (fst s, c) | Raise e c \<Rightarrow> Raise e (fst s, c))"

section \<open>libE\_manager.py: the termination test\<close>

text \<open>
  \<open>termination_test\<close> returns \<open>2\<close>, \<open>1\<close> or \<open>False\<close>; the manager uses the result
  as a truth value and compares it with \<open>2\<close>. \<open>now\<close> is the value of \<open>time.time()\<close>.
  \<open>hist.H[key]\<close> raises \<open>ValueError\<close> for a name that is no field.
\<close>

datatype pyret = RInt int | RBool bool

fun py_truthy :: "pyret \<Rightarrow> bool" where
  "py_truthy (RInt n) = (n \<noteq> 0)"
| "py_truthy (RBool b) = b"


definition termination_test :: "history \<Rightarrow> exit_criteria \<Rightarrow> real \<Rightarrow> real \<Rightarrow> error + pyret" where
  "termination_test hist ec start_time now =
     (if elapsed_wallclock_time ec \<noteq> None
         \<and> now - start_time \<ge> the (elapsed_wallclock_time ec) then Inr (RInt 2)
      else if sim_max ec \<noteq> None
         \<and> given_count hist \<ge> the (sim_max ec) + offset hist then Inr (RInt 1)
      else if gen_max ec \<noteq> None
         \<and> index hist \<ge> the (gen_max ec) + offset hist then Inr (RInt 1)
      else if stop_val ec \<noteq> None then
        (let key = fst (the (stop_val ec)); thr = snd (the (stop_val ec)) in
         case map_of (hist_H hist) key of
           None \<Rightarrow> Inl ValueError
         | Some col \<Rightarrow>
             if list_ex (\<lambda>x. np_le x thr)
                  (filter (\<lambda>x. \<not> isnan x) (py_slice_to (index hist) col))
             then Inr (RInt 1) else Inr (RBool False))
      else Inr (RBool False))"

text \<open>
  \<open>term_test = lambda hist: termination_test(hist, exit_criteria, start_time)\<close>. The
  clock is read only when \<open>elapsed_wallclock_time\<close> is a key of \<open>exit_criteria\<close>.
\<close>

definition term_test :: "env \<Rightarrow> exit_criteria \<Rightarrow> real \<Rightarrow> state \<Rightarrow> (pyret, state) res" where
  "term_test env ec start_time s =
     (let c = snd s;
          c1 = (if elapsed_wallclock_time ec \<noteq> None then next_tick c else c)
      in case termination_test (man_hist (fst s)) ec start_time (env_time env (tick c)) of
           Inl e \<Rightarrow> Raise e (fst s, c1)
         | Inr r \<Rightarrow> Ok r (fst s, c1))"

section \<open>libE\_manager.py: dispatch\<close>

text \<open>
  \<open>send_to_worker_and_update_active_and_idle(comm, hist, Work, w, W)\<close>, in three parts:
  the two sends (lines 88 to 92), the update of \<open>W\<close> (lines 94 to 103) and the call of
  \<open>hist.update_history_x_out\<close> (lines 105 and 106).
\<close>

definition send_work :: "work \<Rightarrow> int \<Rightarrow> history \<Rightarrow> io \<Rightarrow> (unit, io) res" where
  "send_work Work w hist c =
     (let c1 = comm_send (PWork Work) w (Some (tag Work)) c;
          work_rows = H_rows (libE_info Work)
      in if length work_rows \<noteq> 0 then
           (if \<not> set (H_fields Work) \<subseteq> set (map fst (hist_H hist))
            then Raise (AssertionError ''field not in history'') c1
            else case H_slice (hist_H hist) (H_fields Work) work_rows of
                   Inl e \<Rightarrow> Raise e c1
                 | Inr sl \<Rightarrow> Ok () (comm_send (PRows sl) w None c1))
         else Ok () c1)"

fun block_workers :: "int list \<Rightarrow> mdata \<Rightarrow> (unit, mdata) res" where
  "block_workers [] d = Ok () d"
| "block_workers (w_i # ws) d =
     (case W_get (man_W d) (w_i - 1) of
        Inl e \<Rightarrow> Raise e d
      | Inr r \<Rightarrow>
          if active r \<noteq> 0 then Raise (AssertionError ''active worker being blocked'') d
          else block_workers ws
                 (d\<lparr>man_W := W_set (man_W d) (w_i - 1) (\<lambda>r. r\<lparr>blocked := True, active := 1\<rparr>)\<rparr>))"

definition update_active :: "work \<Rightarrow> int \<Rightarrow> mdata \<Rightarrow> (unit, mdata) res" where
  "update_active Work w d =
     (let W1 = W_set (man_W d) (w - 1) (\<lambda>r. r\<lparr>active := tag Work\<rparr>);
          W2 = (if persistent (libE_info Work) \<noteq> None
                then W_set W1 (w - 1) (\<lambda>r. r\<lparr>persis_state := tag Work\<rparr>) else W1)
      in case blocking (libE_info Work) of
           None \<Rightarrow> Ok () (d\<lparr>man_W := W2\<rparr>)
         | Some bs \<Rightarrow> block_workers bs (d\<lparr>man_W := W2\<rparr>))"

definition mark_given ::
  "message_numbers \<Rightarrow> hist_methods \<Rightarrow> work \<Rightarrow> int \<Rightarrow> mdata \<Rightarrow> (unit, mdata) res" where
  "mark_given mn m Work w d =
     (if tag Work = EVAL_SIM_TAG mn then
        (case update_history_x_out m (H_rows (libE_info Work)) w (man_hist d) of
           Inl e \<Rightarrow> Raise e d
         | Inr h \<Rightarrow> Ok () (d\<lparr>man_hist := h\<rparr>))
      else Ok () d)"

definition send_to_worker_and_update_active_and_idle ::
  "message_numbers \<Rightarrow> hist_methods \<Rightarrow> work \<Rightarrow> int \<Rightarrow> state \<Rightarrow> (unit, state) res" where
  "send_to_worker_and_update_active_and_idle mn m Work w s =
     (if w = 0 then Raise (AssertionError ''send to worker 0'') s
      else case W_get (man_W (fst s)) (w - 1) of
        Inl e \<Rightarrow> Raise e s
      | Inr r \<Rightarrow>
          if active r \<noteq> 0 then Raise (AssertionError ''work to an already active worker'') s
          else and_then (on_io (send_work Work w (man_hist (fst s))) s) (\<lambda>u s1.
               and_then (on_data (update_active Work w) s1) (\<lambda>u s2.
               on_data (mark_given mn m Work w) s2)))"

section \<open>libE\_manager.py: receiving\<close>

text \<open>
  \<open>_man_request_pkl_dump_on_error\<close>: the request goes out on \<open>STOP_TAG\<close>, the answer
  is the path of a file, \<open>pickle.load\<close> reads it and \<open>os.remove\<close> deletes it.
\<close>

definition man_request_pkl_dump_on_error ::
  "message_numbers \<Rightarrow> env \<Rightarrow> int \<Rightarrow> io \<Rightarrow> (payload, io) res" where
  "man_request_pkl_dump_on_error mn env w c =
     (let c1 = comm_send (PSignal (MAN_SIGNAL_REQ_PICKLE_DUMP mn)) w (Some (STOP_TAG mn)) c;
          c2 = next_tick c1
      in case env_recv env (tick c1) w of
           RecvRaises \<Rightarrow> Raise RecvError c2
         | Recv (PPath pkl_recv) \<Rightarrow>
             (case env_load env (tick c2) pkl_recv of
                None \<Rightarrow> Raise FileNotFoundError (next_tick c2)
              | Some D_recv \<Rightarrow>
                  Ok D_recv ((next_tick c2)\<lparr>removed := removed c2 @ [pkl_recv]\<rparr>))
         | Recv other \<Rightarrow> Raise TypeError c2)"

text \<open>Lines 155 to 169 of \<open>_handle_msg_from_worker\<close>: the receive and its \<open>except\<close>.\<close>

definition receive_D_recv :: "message_numbers \<Rightarrow> env \<Rightarrow> int \<Rightarrow> io \<Rightarrow> (payload, io) res" where
  "receive_D_recv mn env w c =
     (case env_recv env (tick c) w of
        Recv D_recv \<Rightarrow> Ok D_recv (next_tick c)
      | RecvRaises \<Rightarrow> man_request_pkl_dump_on_error mn env w (next_tick c))"

definition check_received_calc :: "message_numbers \<Rightarrow> calc_msg \<Rightarrow> error option" where
  "check_received_calc mn D_recv =
     (if calc_type D_recv \<notin> set [EVAL_SIM_TAG mn, EVAL_GEN_TAG mn]
      then Some (AssertionError ''unknown calculation type'')
      else if calc_status D_recv \<notin> set
           [FINISHED_PERSISTENT_SIM_TAG mn, FINISHED_PERSISTENT_GEN_TAG mn,
            UNSET_TAG mn, MAN_SIGNAL_FINISH mn, MAN_SIGNAL_KILL mn,
            WORKER_KILL_ON_ERR mn, WORKER_KILL_ON_TIMEOUT mn, WORKER_KILL mn,
            JOB_FAILED mn, WORKER_DONE mn]
      then Some (AssertionError ''unknown calculation status'')
      else None)"

text \<open>Lines 175 to 185: the worker becomes inactive and the result is recorded.\<close>

definition record_calc ::
  "message_numbers \<Rightarrow> hist_methods \<Rightarrow> int \<Rightarrow> calc_msg \<Rightarrow> mdata \<Rightarrow> (unit, mdata) res" where
  "record_calc mn m w D_recv d =
     (case W_get (man_W d) (w - 1) of
        Inl e \<Rightarrow> Raise e d
      | Inr r0 \<Rightarrow>
          let d1 = d\<lparr>man_W := W_set (man_W d) (w - 1) (\<lambda>r. r\<lparr>active := 0\<rparr>)\<rparr>
          in if calc_status D_recv \<in> set [FINISHED_PERSISTENT_SIM_TAG mn,
                                            FINISHED_PERSISTENT_GEN_TAG mn]
             then Ok () (d1\<lparr>man_W := W_set (man_W d1) (w - 1) (\<lambda>r. r\<lparr>persis_state := 0\<rparr>)\<rparr>)
             else
               (case (if calc_type D_recv = EVAL_SIM_TAG mn
                      then update_history_f m D_recv (man_hist d1)
                      else Inr (man_hist d1)) of
                  Inl e \<Rightarrow> Raise e d1
                | Inr h1 \<Rightarrow>
                    (case (if calc_type D_recv = EVAL_GEN_TAG mn
                           then (case calc_out D_recv of
                                   None \<Rightarrow> Inl KeyError
                                 | Some out \<Rightarrow> update_history_x_in m w out h1)
                           else Inr h1) of
                       Inl e \<Rightarrow> Raise e (d1\<lparr>man_hist := h1\<rparr>)
                     | Inr h2 \<Rightarrow>
                         Ok () (d1\<lparr>man_hist := h2,
                                  man_W :=
                                    (if msg_libE_info D_recv \<noteq> None
                                        \<and> persistent (the (msg_libE_info D_recv)) \<noteq> None
                                     then W_set (man_W d1) (w - 1)
                                            (\<lambda>r. r\<lparr>persis_state := calc_type D_recv\<rparr>)
                                     else man_W d1)\<rparr>))))"

text \<open>Lines 187 to 191: the workers the message lists as blocked are released.\<close>

fun unblock_workers :: "int list \<Rightarrow> mdata \<Rightarrow> (unit, mdata) res" where
  "unblock_workers [] d = Ok () d"
| "unblock_workers (w_i # ws) d =
     (case W_get (man_W d) (w_i - 1) of
        Inl e \<Rightarrow> Raise e d
      | Inr r \<Rightarrow>
          unblock_workers ws
            (d\<lparr>man_W := W_set (man_W d) (w_i - 1) (\<lambda>r. r\<lparr>blocked := False, active := 0\<rparr>)\<rparr>))"

definition release_blocking :: "calc_msg \<Rightarrow> mdata \<Rightarrow> (unit, mdata) res" where
  "release_blocking D_recv d =
     (if msg_libE_info D_recv \<noteq> None \<and> blocking (the (msg_libE_info D_recv)) \<noteq> None
      then unblock_workers (the (blocking (the (msg_libE_info D_recv)))) d
      else Ok () d)"

text \<open>Lines 193 to 195: \<open>persis_info[w][key] = D_recv['persis_info'][key]\<close> for every key.\<close>

fun merge_keys :: "int \<Rightarrow> pdict \<Rightarrow> mdata \<Rightarrow> (unit, mdata) res" where
  "merge_keys w [] d = Ok () d"
| "merge_keys w ((key, v) # kvs) d =
     (case man_persis_info d w of
        None \<Rightarrow> Raise KeyError d
      | Some pw \<Rightarrow>
          merge_keys w kvs
            (d\<lparr>man_persis_info := (man_persis_info d)(w \<mapsto> dict_set pw key v)\<rparr>))"

definition merge_persis_info :: "int \<Rightarrow> calc_msg \<Rightarrow> mdata \<Rightarrow> (unit, mdata) res" where
  "merge_persis_info w D_recv d =
     (case msg_persis_info D_recv of None \<Rightarrow> Ok () d | Some kvs \<Rightarrow> merge_keys w kvs d)"

text \<open>Lines 171 to 195: what the manager does with the dictionary it received.\<close>

definition process_D_recv ::
  "message_numbers \<Rightarrow> hist_methods \<Rightarrow> int \<Rightarrow> payload \<Rightarrow> mdata \<Rightarrow> (unit, mdata) res" where
  "process_D_recv mn m w p d =
     (case p of
        PCalc D_recv \<Rightarrow>
          (case check_received_calc mn D_recv of
             Some e \<Rightarrow> Raise e d
           | None \<Rightarrow>
               and_then (record_calc mn m w D_recv d) (\<lambda>u d1.
               and_then (release_blocking D_recv d1) (\<lambda>u d2.
               merge_persis_info w D_recv d2)))
      | other \<Rightarrow> Raise TypeError d)"

definition handle_msg_from_worker ::
  "message_numbers \<Rightarrow> hist_methods \<Rightarrow> env \<Rightarrow> int \<Rightarrow> state \<Rightarrow> (unit, state) res" where
  "handle_msg_from_worker mn m env w s =
     (case receive_D_recv mn env w (snd s) of
        Raise e c \<Rightarrow> Raise e (fst s, c)
      | Ok D_recv c \<Rightarrow> on_data (process_D_recv mn m w D_recv) (fst s, c))"

text \<open>
  \<open>receive_from_sim_and_gen\<close>. The \<open>for\<close> loop runs over the workers that were
  active when it started; \<open>new_stuff\<close> is its result. The \<open>while\<close> loop may run for
  ever (a worker can always have another message ready), so it takes fuel: \<open>None\<close> is
  "has not returned".
\<close>

fun probe_workers ::
  "message_numbers \<Rightarrow> hist_methods \<Rightarrow> env \<Rightarrow> int list \<Rightarrow> bool \<Rightarrow> state \<Rightarrow> (bool, state) res" where
  "probe_workers mn m env [] new_stuff s = Ok new_stuff s"
| "probe_workers mn m env (w # ws) new_stuff s =
     (let s1 = (fst s, next_tick (snd s))
      in if env_iprobe env (tick (snd s)) w then
           (case handle_msg_from_worker mn m env w s1 of
              Raise e s2 \<Rightarrow> Raise e s2
            | Ok u s2 \<Rightarrow> probe_workers mn m env ws True s2)
         else probe_workers mn m env ws new_stuff s1)"

fun receive_loop ::
  "nat \<Rightarrow> message_numbers \<Rightarrow> hist_methods \<Rightarrow> env \<Rightarrow> bool \<Rightarrow> state \<Rightarrow> (unit, state) res option" where
  "receive_loop 0 mn m env new_stuff s = None"
| "receive_loop (Suc fuel) mn m env new_stuff s =
     (if new_stuff \<and> any_active (man_W (fst s)) then
        (case probe_workers mn m env (active_ids (man_W (fst s))) False s of
           Raise e s1 \<Rightarrow> Some (Raise e s1)
         | Ok ns s1 \<Rightarrow> receive_loop fuel mn m env ns s1)
      else Some (Ok () s))"

text \<open>
  \<open>save_every_k(fname, hist, count, k)\<close>: \<open>count//k\<close> raises for \<open>k = 0\<close>; the file
  is written when it does not exist and the rounded count is positive.
\<close>

definition save_every_k :: "env \<Rightarrow> string \<Rightarrow> int \<Rightarrow> int \<Rightarrow> io \<Rightarrow> (unit, io) res" where
  "save_every_k env fname count k c =
     (if k = 0 then Raise ZeroDivisionError c
      else let count' = k * (count div k)
           in if \<not> env_isfile env (tick c) (fname, count') \<and> count' > 0
              then Ok () ((next_tick c)\<lparr>saved := saved c @ [(fname, count')]\<rparr>)
              else Ok () (next_tick c))"

text \<open>
  What the manager reads of \<open>sim_specs\<close>, \<open>gen_specs\<close> and \<open>libE_specs\<close>, and the
  user's functions. The allocator and the queue update are handed the array
  \<open>hist.trim_H()\<close>; the last component of their result is that array as they leave it.
  They read \<open>W\<close> and do not write it.
\<close>

record specs =
  sim_in :: "field list"
  gen_in :: "field list"
  sim_save_every_k :: "int option"
  gen_save_every_k :: "int option"
  abort_on_exception :: "bool option"
  num_workers :: nat

record callbacks =
  alloc_f :: "worker list \<Rightarrow> rows \<Rightarrow> persis
                \<Rightarrow> error + ((int \<times> work) list \<times> persis \<times> rows)"
  queue_update_function ::
    "(rows \<Rightarrow> pdict \<Rightarrow> error + (pdict \<times> rows)) option"

definition receive_from_sim_and_gen ::
  "nat \<Rightarrow> message_numbers \<Rightarrow> hist_methods \<Rightarrow> env \<Rightarrow> specs \<Rightarrow> state
     \<Rightarrow> (unit, state) res option" where
  "receive_from_sim_and_gen fuel mn m env sp s =
     (case receive_loop fuel mn m env True s of
        None \<Rightarrow> None
      | Some (Raise e s1) \<Rightarrow> Some (Raise e s1)
      | Some (Ok u s1) \<Rightarrow>
          Some (and_then
                  (case sim_save_every_k sp of
                     None \<Rightarrow> Ok () s1
                   | Some k \<Rightarrow>
                       on_io (save_every_k env ''libE_history_after_sim_{}.npy''
                                (sim_count (man_hist (fst s1))) k) s1)
                  (\<lambda>u s2.
                     case gen_save_every_k sp of
                       None \<Rightarrow> Ok () s2
                     | Some k \<Rightarrow>
                         on_io (save_every_k env ''libE_history_after_gen_{}.npy''
                                  (index (man_hist (fst s2))) k) s2)))"

definition update_active_and_queue ::
  "hist_methods \<Rightarrow> callbacks \<Rightarrow> mdata \<Rightarrow> (unit, mdata) res" where
  "update_active_and_queue m cb d =
     (let A = trim_H m (man_hist d)
      in case queue_update_function cb of
           None \<Rightarrow> Ok () d
         | Some f \<Rightarrow>
             if nrows A \<noteq> 0 then
               (case f A (man_queue_data d) of
                  Inl e \<Rightarrow> Raise e d
                | Inr (q, A') \<Rightarrow>
                    Ok () (d\<lparr>man_queue_data := q, man_hist := write_back m A' (man_hist d)\<rparr>))
             else Ok () d)"

section \<open>libE\_manager.py: the manager loop\<close>

text \<open>The \<open>for w in Work\<close> loop of \<open>manager_main\<close>, with its \<open>break\<close>.\<close>

fun dispatch_all ::
  "message_numbers \<Rightarrow> hist_methods \<Rightarrow> env \<Rightarrow> exit_criteria \<Rightarrow> real \<Rightarrow> (int \<times> work) list
     \<Rightarrow> state \<Rightarrow> (unit, state) res" where
  "dispatch_all mn m env ec start_time [] s = Ok () s"
| "dispatch_all mn m env ec start_time ((w, Work) # rest) s =
     (case term_test env ec start_time s of
        Raise e s1 \<Rightarrow> Raise e s1
      | Ok r s1 \<Rightarrow>
          if py_truthy r then Ok () s1
          else (case send_to_worker_and_update_active_and_idle mn m Work w s1 of
                  Raise e s2 \<Rightarrow> Raise e s2
                | Ok u s2 \<Rightarrow> dispatch_all mn m env ec start_time rest s2))"

definition allocate_and_dispatch ::
  "message_numbers \<Rightarrow> hist_methods \<Rightarrow> env \<Rightarrow> callbacks \<Rightarrow> exit_criteria \<Rightarrow> real \<Rightarrow> state
     \<Rightarrow> (unit, state) res" where
  "allocate_and_dispatch mn m env cb ec start_time s =
     (let d = fst s
      in if any_idle (man_W d) then
           (case alloc_f cb (man_W d) (trim_H m (man_hist d)) (man_persis_info d) of
              Inl e \<Rightarrow> Raise e s
            | Inr (Work, persis_info, A') \<Rightarrow>
                dispatch_all mn m env ec start_time Work
                  (d\<lparr>man_persis_info := persis_info,
                     man_hist := write_back m A' (man_hist d)\<rparr>, snd s))
         else Ok () s)"

text \<open>
  The \<open>while not term_test(hist)\<close> loop of \<open>manager_main\<close>: every pass starts with the
  termination test. The loop has no bound of its own, so it takes fuel.
\<close>

fun main_loop ::
  "nat \<Rightarrow> message_numbers \<Rightarrow> hist_methods \<Rightarrow> env \<Rightarrow> callbacks \<Rightarrow> specs \<Rightarrow> exit_criteria
     \<Rightarrow> real \<Rightarrow> state \<Rightarrow> (unit, state) res option" where
  "main_loop 0 mn m env cb sp ec start_time s = None"
| "main_loop (Suc fuel) mn m env cb sp ec start_time s =
     (case term_test env ec start_time s of
        Raise e s1 \<Rightarrow> Some (Raise e s1)
      | Ok r s1 \<Rightarrow>
          if py_truthy r then Some (Ok () s1)
          else (case receive_from_sim_and_gen fuel mn m env sp s1 of
                  None \<Rightarrow> None
                | Some (Raise e s2) \<Rightarrow> Some (Raise e s2)
                | Some (Ok u s2) \<Rightarrow>
                    (case and_then (on_data (update_active_and_queue m cb) s2)
                            (\<lambda>u. allocate_and_dispatch mn m env cb ec start_time) of
                       Raise e s3 \<Rightarrow> Some (Raise e s3)
                     | Ok u s3 \<Rightarrow> main_loop fuel mn m env cb sp ec start_time s3)))"





text \<open>
  \<open>initialize\<close> and \<open>send_initial_info_to_workers\<close>. \<open>hist.H[names]\<close> raises
  \<open>KeyError\<close> when a name is no field.
\<close>

definition initial_W :: "nat \<Rightarrow> worker list" where
  "initial_W n =
     map (\<lambda>i. \<lparr>worker_id = int i + 1, active = 0, persis_state = 0, blocked = False\<rparr>) [0..<n]"



section \<open>libE.py: the manager's entry point\<close>



section \<open>alloc\_funcs/persistent\_aposmm\_alloc.py\<close>

text \<open>
  The allocator reads four columns of the array \<open>H\<close> it is given; the array is the
  list of its rows. numpy's boolean indexing \<open>a[mask]\<close> keeps the entries where the
  mask is true, \<open>np.where(b)[0]\<close> lists the positions where \<open>b\<close> is true, and
  \<open>a[inds] = True\<close> writes at the positions \<open>inds\<close>.
\<close>

record hrow =
  gen_worker :: int
  returned :: bool
  given_back :: bool
  given :: bool

definition mask_select :: "'a list \<Rightarrow> bool list \<Rightarrow> 'a list" where
  "mask_select xs bs = map fst (filter snd (zip xs bs))"

definition np_where :: "bool list \<Rightarrow> int list" where
  "np_where bs = map (\<lambda>p. int (fst p)) (filter snd (zip [0..<length bs] bs))"

fun set_given_back :: "hrow list \<Rightarrow> int list \<Rightarrow> error + hrow list" where
  "set_given_back A [] = Inr A"
| "set_given_back A (i # inds) =
     (case py_index (length A) i of
        None \<Rightarrow> Inl IndexError
      | Some k \<Rightarrow> set_given_back (A[k := (A ! k)\<lparr>given_back := True\<rparr>]) inds)"

text \<open>
  Modelled from the spec: \<open>avail_worker_ids\<close> of \<open>libensemble.alloc_funcs.support\<close>
  is not among the sources. The spec's registry has \<open>active\<close> 0 for an idle worker and
  \<open>persis_state\<close> 0 for a worker that is not persistent, and the allocator may only
  target idle workers: the ids of the idle workers that are, or are not, persistent.
\<close>

definition avail_worker_ids :: "worker list \<Rightarrow> bool \<Rightarrow> int list" where
  "avail_worker_ids W pers =
     map worker_id (filter (\<lambda>r. active r = 0 \<and> (persis_state r \<noteq> 0) = pers) W)"

text \<open>
  Modelled from the spec: \<open>count_persis_gens\<close> of \<open>libensemble.alloc_funcs.support\<close>
  is not among the sources. \<open>persis_state\<close> is the persistent tag of a worker: the
  number of workers whose \<open>persis_state\<close> is \<open>EVAL_GEN\<close>.
\<close>

definition count_persis_gens :: "message_numbers \<Rightarrow> worker list \<Rightarrow> nat" where
  "count_persis_gens mn W = length (filter (\<lambda>r. persis_state r = EVAL_GEN_TAG mn) W)"

text \<open>
  Modelled from the spec: \<open>gen_work\<close> and \<open>sim_work\<close> of
  \<open>libensemble.alloc_funcs.support\<close> are not among the sources. A work unit has a tag
  \<open>EVAL_GEN\<close> or \<open>EVAL_SIM\<close>, the fields and rows to ship, the \<open>persistent\<close> mark
  and the scratch of its worker: \<open>Work[i]\<close> becomes that unit, with the fields, rows
  and keywords of the call.
\<close>

definition gen_work ::
  "message_numbers \<Rightarrow> (int \<times> work) list \<Rightarrow> int \<Rightarrow> field list \<Rightarrow> int list \<Rightarrow> pdict
     \<Rightarrow> bool option \<Rightarrow> (int \<times> work) list" where
  "gen_work mn Work i flds rws pinfo pers =
     dict_set Work i
       \<lparr>tag = EVAL_GEN_TAG mn, H_fields = flds,
        libE_info = \<lparr>H_rows = rws, persistent = pers, blocking = None\<rparr>,
        work_persis_info = pinfo\<rparr>"

definition sim_work ::
  "message_numbers \<Rightarrow> (int \<times> work) list \<Rightarrow> int \<Rightarrow> field list \<Rightarrow> int list \<Rightarrow> pdict
     \<Rightarrow> (int \<times> work) list" where
  "sim_work mn Work i flds rws pinfo =
     dict_set Work i
       \<lparr>tag = EVAL_SIM_TAG mn, H_fields = flds,
        libE_info = \<lparr>H_rows = rws, persistent = None, blocking = None\<rparr>,
        work_persis_info = pinfo\<rparr>"

record alloc_specs =
  sim_specs_in :: "field list"
  sim_specs_out :: "field list"
  gen_specs_in :: "field list"
  initial_sample_size :: int

text \<open>
  The first loop of \<open>persistent_aposmm_alloc\<close>, for one persistent worker \<open>i\<close>
  (lines 22 to 36). \<open>returned_but_not_given\<close> is computed on the rows selected by
  \<open>gen_inds\<close>, and \<open>inds_to_give\<close> are positions in it.
\<close>

definition give_back ::
  "message_numbers \<Rightarrow> alloc_specs \<Rightarrow> persis \<Rightarrow> int \<Rightarrow> (int \<times> work) list \<times> hrow list
     \<Rightarrow> error + ((int \<times> work) list \<times> hrow list)" where
  "give_back mn sp persis_info i WA =
     (let Work = fst WA; A = snd WA
      in if int (length (filter returned A)) < initial_sample_size sp then Inr (Work, A)
         else
           let gen_inds = map (\<lambda>r. gen_worker r = i) A;
               returned_but_not_given =
                 map2 (\<and>) (mask_select (map returned A) gen_inds)
                           (map Not (mask_select (map given_back A) gen_inds))
           in if list_ex id returned_but_not_given then
                (let inds_to_give = np_where returned_but_not_given
                 in case persis_info i of
                      None \<Rightarrow> Inl KeyError
                    | Some pinfo \<Rightarrow>
                        (case set_given_back A inds_to_give of
                           Inl e \<Rightarrow> Inl e
                         | Inr A' \<Rightarrow>
                             Inr (gen_work mn Work i
                                    (sim_specs_in sp @ sim_specs_out sp
                                       @ [''sim_id'', ''x_on_cube''])
                                    inds_to_give pinfo (Some True),
                                  A')))
              else Inr (Work, A))"

fun give_back_all ::
  "message_numbers \<Rightarrow> alloc_specs \<Rightarrow> persis \<Rightarrow> int list \<Rightarrow> (int \<times> work) list \<times> hrow list
     \<Rightarrow> error + ((int \<times> work) list \<times> hrow list)" where
  "give_back_all mn sp persis_info [] WA = Inr WA"
| "give_back_all mn sp persis_info (i # ids) WA =
     (case give_back mn sp persis_info i WA of
        Inl e \<Rightarrow> Inl e
      | Inr WA' \<Rightarrow> give_back_all mn sp persis_info ids WA')"

text \<open>
  The second loop (lines 38 to 51): the oldest row not yet given goes to each idle
  worker that is not persistent; when no row is left and no generator is persistent
  yet, one is started. Its state is \<open>Work\<close>, \<open>task_avail\<close> and \<open>gen_count\<close>.
\<close>

fun give_sim_work ::
  "message_numbers \<Rightarrow> alloc_specs \<Rightarrow> persis \<Rightarrow> int list
     \<Rightarrow> (int \<times> work) list \<times> bool list \<times> nat \<Rightarrow> error + (int \<times> work) list" where
  "give_sim_work mn sp persis_info [] st = Inr (fst st)"
| "give_sim_work mn sp persis_info (i # ids) st =
     (let Work = fst st; task_avail = fst (snd st); gen_count = snd (snd st)
      in if list_ex id task_avail then
           (let sim_ids_to_send = hd (np_where task_avail)
            in case persis_info i of
                 None \<Rightarrow> Inl KeyError
               | Some pinfo \<Rightarrow>
                   give_sim_work mn sp persis_info ids
                     (sim_work mn Work i (sim_specs_in sp) [sim_ids_to_send] pinfo,
                      task_avail[nat sim_ids_to_send := False], gen_count))
         else if gen_count = 0 then
           (case persis_info i of
              None \<Rightarrow> Inl KeyError
            | Some pinfo \<Rightarrow>
                give_sim_work mn sp persis_info ids
                  (gen_work mn Work i (gen_specs_in sp) [] pinfo (Some True),
                   task_avail, Suc gen_count))
         else give_sim_work mn sp persis_info ids st)"

text \<open>
  \<open>persistent_aposmm_alloc(W, H, sim_specs, gen_specs, alloc_specs, persis_info)\<close>
  returns \<open>Work\<close> and \<open>persis_info\<close>; the array \<open>H\<close> as the allocator leaves it is
  the third component.
\<close>

definition persistent_aposmm_alloc ::
  "message_numbers \<Rightarrow> worker list \<Rightarrow> hrow list \<Rightarrow> alloc_specs \<Rightarrow> persis
     \<Rightarrow> error + ((int \<times> work) list \<times> persis \<times> hrow list)" where
  "persistent_aposmm_alloc mn W A sp persis_info =
     (let gen_count = count_persis_gens mn W
      in case give_back_all mn sp persis_info (avail_worker_ids W True) ([], A) of
           Inl e \<Rightarrow> Inl e
         | Inr (Work, A') \<Rightarrow>
             (case give_sim_work mn sp persis_info (avail_worker_ids W False)
                     (Work, map (\<lambda>r. \<not> given r) A', gen_count) of
                Inl e \<Rightarrow> Inl e
              | Inr Work' \<Rightarrow> Inr (Work', persis_info, A')))"

section \<open>The history's array as the allocator sees it\<close>




section \<open>Observations on results and on the log of sends\<close>

text \<open>
  The state a call ends in, whether it returns or raises; a result seen through a
  projection of its state; the destinations of the \<open>FINISH\<close> signals in the log of sends
  (signal \<open>MAN_SIGNAL_FINISH\<close> on \<open>STOP_TAG\<close>), in the order they were sent; and the
  relation of two states with the same worker ids and the same \<open>FINISH\<close> signals sent.
\<close>

fun res_state :: "('a, 's) res \<Rightarrow> 's" where
  "res_state (Ok a s) = s"
| "res_state (Raise e s) = s"

fun on_state :: "('s \<Rightarrow> 't) \<Rightarrow> ('a, 's) res \<Rightarrow> ('a, 't) res" where
  "on_state f (Ok a s) = Ok a (f s)"
| "on_state f (Raise e s) = Raise e (f s)"

definition finish_dests :: "message_numbers \<Rightarrow> io \<Rightarrow> int list" where
  "finish_dests mn c =
     map fst (filter (\<lambda>x. fst (snd x) = Some (STOP_TAG mn)
                          \<and> snd (snd x) = PSignal (MAN_SIGNAL_FINISH mn)) (sent c))"


section \<open>The termination predicate in the words of the specification\<close>

text \<open>
  The four criteria as the specification words them, and the value it gives the
  predicate: \<open>2\<close> on the deadline, else \<open>1\<close> on \<open>sim_max\<close>, on \<open>gen_max\<close> or on
  \<open>stop_val\<close>, else false. \<open>stop_field_known\<close> is what \<open>check_inputs\<close> asks of
  \<open>stop_val\<close>: its field is an output field, hence a column of \<open>H\<close>.
\<close>

definition wallclock_reached :: "exit_criteria \<Rightarrow> real \<Rightarrow> real \<Rightarrow> bool" where
  "wallclock_reached ec start_time now =
     (case elapsed_wallclock_time ec of None \<Rightarrow> False | Some t \<Rightarrow> now - start_time \<ge> t)"

definition sim_max_reached :: "history \<Rightarrow> exit_criteria \<Rightarrow> bool" where
  "sim_max_reached hist ec =
     (case sim_max ec of None \<Rightarrow> False | Some n \<Rightarrow> given_count hist \<ge> n + offset hist)"

definition gen_max_reached :: "history \<Rightarrow> exit_criteria \<Rightarrow> bool" where
  "gen_max_reached hist ec =
     (case gen_max ec of None \<Rightarrow> False | Some n \<Rightarrow> index hist \<ge> n + offset hist)"

definition stop_val_reached :: "history \<Rightarrow> exit_criteria \<Rightarrow> bool" where
  "stop_val_reached hist ec =
     (case stop_val ec of
        None \<Rightarrow> False
      | Some (f, thr) \<Rightarrow>
          (case map_of (hist_H hist) f of
             None \<Rightarrow> False
           | Some col \<Rightarrow> \<exists>x \<in> set (py_slice_to (index hist) col). x \<noteq> NaN \<and> np_le x thr))"

definition spec_termination :: "history \<Rightarrow> exit_criteria \<Rightarrow> real \<Rightarrow> real \<Rightarrow> pyret" where
  "spec_termination hist ec start_time now =
     (if wallclock_reached ec start_time now then RInt 2
      else if sim_max_reached hist ec then RInt 1
      else if gen_max_reached hist ec then RInt 1
      else if stop_val_reached hist ec then RInt 1
      else RBool False)"

definition stop_field_known :: "history \<Rightarrow> exit_criteria \<Rightarrow> bool" where
  "stop_field_known hist ec =
     (case stop_val ec of None \<Rightarrow> True | Some (f, thr) \<Rightarrow> map_of (hist_H hist) f \<noteq> None)"

section \<open>Example runs\<close>

text \<open>
  Concrete inputs for the examples below: message numbers (any fourteen distinct
  integers would do), a history whose methods only count, a table of three workers, and
  an outside world in which no worker ever answers and the clock advances by twenty
  seconds at every reading.
\<close>

definition example_numbers :: message_numbers where
  "example_numbers =
     \<lparr>EVAL_SIM_TAG = 1, EVAL_GEN_TAG = 2, FINISHED_PERSISTENT_SIM_TAG = 11,
      FINISHED_PERSISTENT_GEN_TAG = 12, STOP_TAG = 3, UNSET_TAG = 0, WORKER_KILL = 30,
      WORKER_KILL_ON_ERR = 31, WORKER_KILL_ON_TIMEOUT = 32, JOB_FAILED = 33,
      WORKER_DONE = 34, MAN_SIGNAL_FINISH = 20, MAN_SIGNAL_KILL = 21,
      MAN_SIGNAL_REQ_PICKLE_DUMP = 23\<rparr>"

definition example_methods :: hist_methods where
  "example_methods =
     \<lparr>update_history_x_out =
        (\<lambda>rws w h. Inr (h\<lparr>given_count := given_count h + int (length rws)\<rparr>)),
      update_history_f = (\<lambda>D h. Inr (h\<lparr>sim_count := sim_count h + 1\<rparr>)),
      update_history_x_in = (\<lambda>w out h. Inr (h\<lparr>index := index h + int (nrows out)\<rparr>)),
      trim_H = hist_H,
      write_back = (\<lambda>A h. h)\<rparr>"

definition example_hist :: history where
  "example_hist =
     \<lparr>hist_H = [(''x'', [Fin 1, Fin 2, Fin 3]), (''f'', [NaN, Fin 3, Fin (1/2)])],
      index = 3, given_count = 0, sim_count = 0, offset = 0\<rparr>"

definition example_io :: io where
  "example_io =
     \<lparr>sent = [], bcasts = [], removed = [], saved = [], aborted = False, tick = 0\<rparr>"

definition example_data :: mdata where
  "example_data =
     \<lparr>man_W = initial_W 3, man_hist = example_hist,
      man_persis_info = [1 \<mapsto> [], 2 \<mapsto> [], 3 \<mapsto> []], man_queue_data = []\<rparr>"

definition example_work :: work where
  "example_work =
     \<lparr>tag = 1, H_fields = [''x''],
      libE_info = \<lparr>H_rows = [0, 2], persistent = Some True, blocking = Some [2, 3]\<rparr>,
      work_persis_info = []\<rparr>"

definition example_exit :: exit_criteria where
  "example_exit =
     \<lparr>elapsed_wallclock_time = Some 10, sim_max = Some 5, gen_max = None,
      stop_val = Some (''f'', Fin 1)\<rparr>"

definition example_exit_unknown :: exit_criteria where
  "example_exit_unknown =
     \<lparr>elapsed_wallclock_time = None, sim_max = None, gen_max = None,
      stop_val = Some (''nope'', Fin 1)\<rparr>"

definition example_env :: env where
  "example_env =
     \<lparr>env_iprobe = (\<lambda>k w. False), env_recv = (\<lambda>k w. RecvRaises),
      env_time = (\<lambda>k. 20 * real k), env_load = (\<lambda>k path. None),
      env_isfile = (\<lambda>k f. False)\<rparr>"

definition example_callbacks :: callbacks where
  "example_callbacks =
     \<lparr>alloc_f = (\<lambda>W A persis_info. Inr ([], persis_info, A)),
      queue_update_function = None\<rparr>"

definition example_specs :: specs where
  "example_specs =
     \<lparr>sim_in = [''x''], gen_in = [], sim_save_every_k = None, gen_save_every_k = None,
      abort_on_exception = None, num_workers = 3\<rparr>"










text \<open>
  A worker's message that ends a persistent generator; a world in which it arrives, and
  a world in which the first receive fails and the worker then names the file
  \<open>dump.pkl\<close> that holds it; a worker table in which worker 1 is that generator.
\<close>

definition example_finished_msg :: calc_msg where
  "example_finished_msg =
     \<lparr>calc_type = 2, calc_status = 12, calc_out = None, msg_libE_info = None,
      msg_persis_info = None\<rparr>"

definition example_env_msg :: env where
  "example_env_msg = example_env\<lparr>env_recv := (\<lambda>k w. Recv (PCalc example_finished_msg))\<rparr>"

definition example_env_dump :: env where
  "example_env_dump =
     example_env
       \<lparr>env_recv := (\<lambda>k w. if k = 0 then RecvRaises else Recv (PPath ''dump.pkl'')),
        env_load := (\<lambda>k path. if path = ''dump.pkl'' then Some (PCalc example_finished_msg)
                                else None)\<rparr>"

definition example_busy :: mdata where
  "example_busy =
     example_data
       \<lparr>man_W := [\<lparr>worker_id = 1, active = 2, persis_state = 2, blocked = False\<rparr>,
                  \<lparr>worker_id = 2, active = 0, persis_state = 0, blocked = False\<rparr>,
                  \<lparr>worker_id = 3, active = 0, persis_state = 0, blocked = False\<rparr>]\<rparr>"

text \<open>
  An input of the allocator: worker 1 is an idle persistent generator, worker 2 runs the
  simulation of row 1 and worker 3 has returned that of row 2; row 0 of the history comes
  from a prior history (\<open>gen_worker = 0\<close>), rows 1 and 2 were generated by worker 1.
\<close>

definition example_alloc_W :: "worker list" where
  "example_alloc_W =
     [\<lparr>worker_id = 1, active = 0, persis_state = 2, blocked = False\<rparr>,
      \<lparr>worker_id = 2, active = 1, persis_state = 0, blocked = False\<rparr>,
      \<lparr>worker_id = 3, active = 0, persis_state = 0, blocked = False\<rparr>]"

definition example_alloc_H :: "hrow list" where
  "example_alloc_H =
     [\<lparr>gen_worker = 0, returned = True, given_back = False, given = True\<rparr>,
      \<lparr>gen_worker = 1, returned = False, given_back = False, given = True\<rparr>,
      \<lparr>gen_worker = 1, returned = True, given_back = False, given = True\<rparr>]"

definition example_alloc_specs :: alloc_specs where
  "example_alloc_specs =
     \<lparr>sim_specs_in = [''x''], sim_specs_out = [''f''], gen_specs_in = [],
      initial_sample_size = 1\<rparr>"






section \<open>Properties of job_partition\<close>

text \<open>
  C10. \<open>job_partition\<close> by cases: with a machinefile the result is
  \<open>(None, None, None)\<close> whatever the other arguments are; with all three numbers given
  it raises \<open>JobControllerException\<close> when \<open>num_procs \<noteq> num_nodes * ranks_per_node\<close> and
  returns the three unchanged when they agree; without \<open>num_procs\<close> it raises when
  \<open>num_nodes\<close> or \<open>ranks_per_node\<close> is missing too and otherwise returns
  \<open>(num_nodes * ranks_per_node, num_nodes, ranks_per_node)\<close>; with \<open>num_procs\<close> alone
  it returns \<open>(num_procs, 1, num_procs)\<close>.
\<close>

theorem job_partition_cases:
  "(mf \<noteq> None \<longrightarrow> job_partition p n r mf = Inr (None, None, None))
   \<and> (a \<noteq> b * c \<longrightarrow>
        is_JobControllerException (job_partition (Some a) (Some b) (Some c) None))
   \<and> (a = b * c \<longrightarrow>
        job_partition (Some a) (Some b) (Some c) None
          = Inr (Some (PInt a), Some (PInt b), Some (PInt c)))
   \<and> (n = None \<or> r = None \<longrightarrow> is_JobControllerException (job_partition None n r None))
   \<and> job_partition None (Some b) (Some c) None
        = Inr (Some (PInt (b * c)), Some (PInt b), Some (PInt c))
   \<and> job_partition (Some a) None None None
        = Inr (Some (PInt a), Some (PInt 1), Some (PInt a))"
  by (auto simp: job_partition_def is_JobControllerException_def)

theorem job_partition_cases_witness:
  "job_partition (Some 8) None (Some 3) (Some ''hosts'') = Inr (None, None, None)
   \<and> is_JobControllerException (job_partition (Some 7) (Some 2) (Some 4) None)
   \<and> job_partition (Some 8) (Some 2) (Some 4) None
        = Inr (Some (PInt 8), Some (PInt 2), Some (PInt 4))
   \<and> is_JobControllerException (job_partition None None (Some 4) None)
   \<and> job_partition None (Some 2) (Some 4) None
        = Inr (Some (PInt 8), Some (PInt 2), Some (PInt 4))
   \<and> job_partition (Some 6) None None None
        = Inr (Some (PInt 6), Some (PInt 1), Some (PInt 6))"
  using job_partition_cases [of "Some ''hosts''" "Some 8" None "Some 3" 7 2 4]
    job_partition_cases [of None None None "Some 4" 8 2 4]
    job_partition_cases [of None None None None 6 2 4]
  by simp


section \<open>Getting and setting rows of the worker table\<close>

lemma py_index_less: "py_index n i = Some k \<Longrightarrow> k < n"
  by (auto simp: py_index_def split: if_splits)

lemma length_W_set: "length (W_set W i f) = length W"
  by (simp add: W_set_def split: option.splits)

lemma W_set_nth:
  "py_index (length W) i = Some k \<Longrightarrow> W_set W i f = W[k := f (W ! k)]"
  by (simp add: W_set_def)

lemma initial_W_3:
  "initial_W 3 =
     [\<lparr>worker_id = 1, active = 0, persis_state = 0, blocked = False\<rparr>,
      \<lparr>worker_id = 2, active = 0, persis_state = 0, blocked = False\<rparr>,
      \<lparr>worker_id = 3, active = 0, persis_state = 0, blocked = False\<rparr>]"
  by (simp add: initial_W_def upt_rec)

lemma and_then_Ok:
  "and_then r f = Ok a s \<longleftrightarrow> (\<exists>b s1. r = Ok b s1 \<and> f b s1 = Ok a s)"
  by (cases r) (auto simp: and_then_def)

lemma on_data_Ok:
  "on_data f s = Ok a s' \<longleftrightarrow> (\<exists>d. f (fst s) = Ok a d \<and> s' = (d, snd s))"
  by (cases "f (fst s)") (auto simp: on_data_def)

lemma on_io_Ok:
  "on_io f s = Ok a s' \<longleftrightarrow> (\<exists>c. f (snd s) = Ok a c \<and> s' = (fst s, c))"
  by (cases "f (snd s)") (auto simp: on_io_def)

section \<open>The termination test\<close>

lemma isnan_iff: "isnan x \<longleftrightarrow> x = NaN"
  by (cases x) auto

lemma list_ex_le_filter:
  "list_ex (\<lambda>x. np_le x thr) (filter (\<lambda>x. \<not> isnan x) xs)
     \<longleftrightarrow> (\<exists>x \<in> set xs. x \<noteq> NaN \<and> np_le x thr)"
  by (auto simp: list_ex_iff isnan_iff)

text \<open>
  C1. The termination test returns \<open>2\<close> as soon as \<open>elapsed_wallclock_time\<close> is set
  and reached, before any other check (also before the lookup of the \<open>stop_val\<close>
  field, which may raise); and when the \<open>stop_val\<close> field is a column of \<open>H\<close>, its
  value is the one the specification gives: \<open>2\<close> on the deadline, otherwise \<open>1\<close> if
  \<open>sim_max\<close> is set and \<open>given_count \<ge> sim_max + offset\<close>, otherwise \<open>1\<close> if
  \<open>gen_max\<close> is set and \<open>index \<ge> gen_max + offset\<close>, otherwise \<open>1\<close> if some
  non-NaN value of \<open>H[field][:index]\<close> is at most the threshold, otherwise
  \<open>False\<close>. Every pass of the manager loop starts with the test: a true result ends the
  loop, an exception of the test leaves it.
\<close>

theorem termination_test_cases:
  "(wallclock_reached ec start_time now \<longrightarrow>
      termination_test hist ec start_time now = Inr (RInt 2))
   \<and> (stop_field_known hist ec \<longrightarrow>
      termination_test hist ec start_time now = Inr (spec_termination hist ec start_time now))
   \<and> \<not> py_truthy (RBool False)
   \<and> (term_test env ec start_time s = Ok r s' \<and> py_truthy r \<longrightarrow>
        main_loop (Suc fuel) mn m env cb sp ec start_time s = Some (Ok () s'))
   \<and> (term_test env ec start_time s = Raise e s' \<longrightarrow>
        main_loop (Suc fuel) mn m env cb sp ec start_time s = Some (Raise e s'))"
proof (intro conjI impI)
  show "termination_test hist ec start_time now = Inr (RInt 2)"
    if "wallclock_reached ec start_time now"
    using that by (auto simp: termination_test_def wallclock_reached_def split: option.splits)
  show "termination_test hist ec start_time now = Inr (spec_termination hist ec start_time now)"
    if "stop_field_known hist ec"
    using that
    by (auto simp: termination_test_def spec_termination_def wallclock_reached_def
        sim_max_reached_def gen_max_reached_def stop_val_reached_def stop_field_known_def
        list_ex_le_filter Let_def split: option.splits)
  show "\<not> py_truthy (RBool False)" by simp
  show "main_loop (Suc fuel) mn m env cb sp ec start_time s = Some (Ok () s')"
    if "term_test env ec start_time s = Ok r s' \<and> py_truthy r"
    using that by simp
  show "main_loop (Suc fuel) mn m env cb sp ec start_time s = Some (Raise e s')"
    if "term_test env ec start_time s = Raise e s'"
    using that by simp
qed

theorem termination_test_cases_witness:
  "wallclock_reached example_exit 0 12
   \<and> termination_test example_hist example_exit 0 12 = Inr (RInt 2)
   \<and> stop_field_known example_hist example_exit
   \<and> termination_test example_hist example_exit 0 4 = Inr (RInt 1)
   \<and> term_test example_env example_exit 0 (example_data, next_tick example_io)
       = Ok (RInt 2) (example_data, next_tick (next_tick example_io))
   \<and> py_truthy (RInt 2)
   \<and> main_loop (Suc 0) example_numbers example_methods example_env example_callbacks
        example_specs example_exit 0 (example_data, next_tick example_io)
       = Some (Ok () (example_data, next_tick (next_tick example_io)))
   \<and> term_test example_env example_exit_unknown 0 (example_data, example_io)
       = Raise ValueError (example_data, example_io)
   \<and> main_loop (Suc 0) example_numbers example_methods example_env example_callbacks
        example_specs example_exit_unknown 0 (example_data, example_io)
       = Some (Raise ValueError (example_data, example_io))"
proof -
  have u: "term_test example_env example_exit_unknown 0 (example_data, example_io)
       = Raise ValueError (example_data, example_io)"
    by (simp add: term_test_def termination_test_def example_exit_unknown_def
        example_data_def example_hist_def)
  have w: "wallclock_reached example_exit 0 12"
    by (simp add: wallclock_reached_def example_exit_def)
  have k: "stop_field_known example_hist example_exit"
    by (simp add: stop_field_known_def example_exit_def example_hist_def)
  have v: "spec_termination example_hist example_exit 0 4 = RInt 1"
    by (simp add: spec_termination_def wallclock_reached_def sim_max_reached_def
        gen_max_reached_def stop_val_reached_def example_exit_def example_hist_def
        py_slice_to_def)
  have t: "term_test example_env example_exit 0 (example_data, next_tick example_io)
       = Ok (RInt 2) (example_data, next_tick (next_tick example_io))"
    by (simp add: term_test_def termination_test_def example_env_def example_exit_def
        example_io_def next_tick_def)
  show ?thesis
    using w k v t u
      termination_test_cases [of example_exit 0 12 example_hist example_env
        "(example_data, next_tick example_io)" "RInt 2"
        "(example_data, next_tick (next_tick example_io))" 0 example_numbers example_methods
        example_callbacks example_specs]
      termination_test_cases [of example_exit 0 4 example_hist]
      termination_test_cases [of example_exit_unknown 0 0 example_hist example_env
        "(example_data, example_io)" "RInt 0" "(example_data, example_io)" 0 example_numbers
        example_methods example_callbacks example_specs ValueError]
    by simp
qed

section \<open>Dispatch\<close>

lemma block_workers_frame:
  "block_workers bs d = Ok u d' \<Longrightarrow>
     length (man_W d') = length (man_W d) \<and> man_hist d' = man_hist d
     \<and> man_persis_info d' = man_persis_info d \<and> man_queue_data d' = man_queue_data d
     \<and> (\<forall>k < length (man_W d). active (man_W d ! k) \<noteq> 0 \<longrightarrow> man_W d' ! k = man_W d ! k)"
proof (induction bs arbitrary: d)
  case Nil
  then show ?case by simp
next
  case (Cons b bs)
  from Cons.prems obtain k where k: "py_index (length (man_W d)) (b - 1) = Some k"
    and idle: "active (man_W d ! k) = 0"
    and rest: "block_workers bs
         (d\<lparr>man_W := (man_W d)[k := (man_W d ! k)\<lparr>blocked := True, active := 1\<rparr>]\<rparr>) = Ok u d'"
    by (auto simp: W_get_def W_set_def split: option.splits if_splits)
  have klt: "k < length (man_W d)" using k by (rule py_index_less)
  from Cons.IH [OF rest] idle klt show ?case
    by (auto simp: nth_list_update)
qed

lemma block_workers_blocked:
  "block_workers bs d = Ok u d' \<Longrightarrow> b \<in> set bs \<Longrightarrow>
     \<exists>k. py_index (length (man_W d)) (b - 1) = Some k \<and> active (man_W d ! k) = 0
       \<and> blocked (man_W d' ! k) \<and> active (man_W d' ! k) = 1"
proof (induction bs arbitrary: d)
  case Nil
  then show ?case by simp
next
  case (Cons a bs)
  let ?W = "man_W d"
  from Cons.prems(1) obtain k where k: "py_index (length ?W) (a - 1) = Some k"
    and idle: "active (?W ! k) = 0"
    and rest: "block_workers bs
         (d\<lparr>man_W := ?W[k := (?W ! k)\<lparr>blocked := True, active := 1\<rparr>]\<rparr>) = Ok u d'"
    by (auto simp: W_get_def W_set_def split: option.splits if_splits)
  let ?d1 = "d\<lparr>man_W := ?W[k := (?W ! k)\<lparr>blocked := True, active := 1\<rparr>]\<rparr>"
  have klt: "k < length ?W" using k by (rule py_index_less)
  note fr = block_workers_frame [OF rest]
  show ?case
  proof (cases "b = a")
    case True
    have "man_W d' ! k = man_W ?d1 ! k"
      using fr klt by simp
    with True k idle klt show ?thesis by auto
  next
    case False
    with Cons.prems(2) have "b \<in> set bs" by simp
    from Cons.IH [OF rest this] obtain j where j: "py_index (length ?W) (b - 1) = Some j"
      and j0: "active (man_W ?d1 ! j) = 0"
      and j1: "blocked (man_W d' ! j)" "active (man_W d' ! j) = 1"
      by auto
    have "j \<noteq> k" using j0 klt by auto
    with j0 have "active (?W ! j) = 0" by simp
    with j j1 show ?thesis by auto
  qed
qed

text \<open>
  C2. A dispatch of \<open>Work\<close> (with a tag that is not 0) to worker \<open>w\<close> that goes through
  found \<open>W[w].active = 0\<close> and leaves \<open>W[w].active = Work.tag\<close>; if \<open>Work\<close> is marked
  persistent, \<open>W[w].persis_state = Work.tag\<close>; every id of the blocking set had
  \<open>active = 0\<close> before and has \<open>blocked = true\<close> and \<open>active = 1\<close> after; and if the
  tag is \<open>EVAL_SIM\<close> the history after the dispatch is the one
  \<open>update_history_x_out(H_rows, w)\<close> returns, otherwise the history is unchanged.
\<close>

theorem dispatch_updates:
  assumes ok: "send_to_worker_and_update_active_and_idle mn m Work w s = Ok u s'"
    and tag: "tag Work \<noteq> 0"
  shows "(\<exists>r0 r. W_get (man_W (fst s)) (w - 1) = Inr r0 \<and> active r0 = 0
            \<and> W_get (man_W (fst s')) (w - 1) = Inr r \<and> active r = tag Work
            \<and> (persistent (libE_info Work) \<noteq> None \<longrightarrow> persis_state r = tag Work))
       \<and> (\<forall>bs b. blocking (libE_info Work) = Some bs \<and> b \<in> set bs \<longrightarrow>
            (\<exists>r0 r. W_get (man_W (fst s)) (b - 1) = Inr r0 \<and> active r0 = 0
               \<and> W_get (man_W (fst s')) (b - 1) = Inr r \<and> blocked r \<and> active r = 1))
       \<and> (tag Work = EVAL_SIM_TAG mn \<longrightarrow>
            update_history_x_out m (H_rows (libE_info Work)) w (man_hist (fst s))
              = Inr (man_hist (fst s')))
       \<and> (tag Work \<noteq> EVAL_SIM_TAG mn \<longrightarrow> man_hist (fst s') = man_hist (fst s))"
proof -
  let ?W = "man_W (fst s)"
  from ok obtain k where k: "py_index (length ?W) (w - 1) = Some k"
    and idle: "active (?W ! k) = 0"
    and steps: "and_then (on_io (send_work Work w (man_hist (fst s))) s) (\<lambda>u s1.
               and_then (on_data (update_active Work w) s1) (\<lambda>u s2.
               on_data (mark_given mn m Work w) s2)) = Ok u s'"
    by (auto simp: send_to_worker_and_update_active_and_idle_def W_get_def
        split: if_splits option.splits)
  from steps obtain c1 d2 d3 where
    sw: "send_work Work w (man_hist (fst s)) (snd s) = Ok () c1"
    and ua: "update_active Work w (fst s) = Ok () d2"
    and mg: "mark_given mn m Work w d2 = Ok () d3"
    and s': "s' = (d3, c1)"
    by (auto simp: and_then_Ok on_data_Ok on_io_Ok)
  have klt: "k < length ?W" using k by (rule py_index_less)
  define r1 where "r1 = (if persistent (libE_info Work) \<noteq> None
      then (?W ! k)\<lparr>active := tag Work, persis_state := tag Work\<rparr>
      else (?W ! k)\<lparr>active := tag Work\<rparr>)"
  define d1 where "d1 = (fst s)\<lparr>man_W := ?W[k := r1]\<rparr>"
  have ua': "(case blocking (libE_info Work) of None \<Rightarrow> Ok () d1
               | Some bs \<Rightarrow> block_workers bs d1) = Ok () d2"
  proof -
    have "W_set (?W[k := (?W ! k)\<lparr>active := tag Work\<rparr>]) (w - 1)
            (\<lambda>r. r\<lparr>persis_state := tag Work\<rparr>)
          = ?W[k := (?W ! k)\<lparr>active := tag Work, persis_state := tag Work\<rparr>]"
      using k klt by (simp add: W_set_def)
    then have "(fst s)\<lparr>man_W := (if persistent (libE_info Work) \<noteq> None
                then W_set (W_set ?W (w - 1) (\<lambda>r. r\<lparr>active := tag Work\<rparr>)) (w - 1)
                       (\<lambda>r. r\<lparr>persis_state := tag Work\<rparr>)
                else W_set ?W (w - 1) (\<lambda>r. r\<lparr>active := tag Work\<rparr>))\<rparr> = d1"
      using k by (simp add: d1_def r1_def W_set_nth)
    with ua show ?thesis
      by (cases "blocking (libE_info Work)") (simp_all add: update_active_def Let_def)
  qed
  have W1k: "man_W d1 ! k = r1" and len1: "length (man_W d1) = length ?W"
    and hist1: "man_hist d1 = man_hist (fst s)"
    using klt by (simp_all add: d1_def)
  have act1: "active r1 = tag Work" by (simp add: r1_def)
  have frame: "length (man_W d2) = length ?W \<and> man_hist d2 = man_hist (fst s)
      \<and> man_W d2 ! k = r1"
  proof (cases "blocking (libE_info Work)")
    case None
    with ua' W1k len1 hist1 show ?thesis by auto
  next
    case (Some bs)
    with ua' have "block_workers bs d1 = Ok () d2" by simp
    from block_workers_frame [OF this] W1k len1 hist1 act1 tag klt show ?thesis by auto
  qed
  have hist3: "(tag Work = EVAL_SIM_TAG mn \<longrightarrow>
            update_history_x_out m (H_rows (libE_info Work)) w (man_hist d2) = Inr (man_hist d3))
       \<and> (tag Work \<noteq> EVAL_SIM_TAG mn \<longrightarrow> man_hist d3 = man_hist d2)"
    and W3: "man_W d3 = man_W d2"
    using mg by (auto simp: mark_given_def split: if_splits sum.splits)
  have part1: "\<exists>r0 r. W_get (man_W (fst s)) (w - 1) = Inr r0 \<and> active r0 = 0
            \<and> W_get (man_W (fst s')) (w - 1) = Inr r \<and> active r = tag Work
            \<and> (persistent (libE_info Work) \<noteq> None \<longrightarrow> persis_state r = tag Work)"
    using k idle frame W3 s' by (auto simp: W_get_def r1_def)
  have part2: "\<exists>r0 r. W_get (man_W (fst s)) (b - 1) = Inr r0 \<and> active r0 = 0
               \<and> W_get (man_W (fst s')) (b - 1) = Inr r \<and> blocked r \<and> active r = 1"
    if bs: "blocking (libE_info Work) = Some bs" and b: "b \<in> set bs" for bs b
  proof -
    from ua' bs have bw: "block_workers bs d1 = Ok () d2" by simp
    from block_workers_blocked [OF bw b] obtain j where
      j: "py_index (length ?W) (b - 1) = Some j" and j0: "active (man_W d1 ! j) = 0"
      and j1: "blocked (man_W d2 ! j)" "active (man_W d2 ! j) = 1"
      using len1 by auto
    have "j \<noteq> k" using j0 W1k act1 tag by auto
    then have "man_W d1 ! j = ?W ! j" by (simp add: d1_def)
    with j j0 j1 frame W3 s' show ?thesis by (auto simp: W_get_def)
  qed
  from part1 part2 hist3 frame s' show ?thesis by auto
qed

lemma example_dispatch:
  "send_to_worker_and_update_active_and_idle example_numbers example_methods example_work 1
     (example_data, example_io)
   = Ok () (example_data
              \<lparr>man_W := [\<lparr>worker_id = 1, active = 1, persis_state = 1, blocked = False\<rparr>,
                         \<lparr>worker_id = 2, active = 1, persis_state = 0, blocked = True\<rparr>,
                         \<lparr>worker_id = 3, active = 1, persis_state = 0, blocked = True\<rparr>],
               man_hist := example_hist\<lparr>given_count := 2\<rparr>\<rparr>,
            example_io
              \<lparr>sent := [(1, Some 1, PWork example_work),
                        (1, None, PRows [(''x'', [Fin 1, Fin 3])])]\<rparr>)"
  by (simp add: send_to_worker_and_update_active_and_idle_def example_data_def example_io_def
       example_work_def example_numbers_def example_methods_def example_hist_def initial_W_3
       W_get_def W_set_def py_index_def and_then_def on_io_def on_data_def send_work_def
       update_active_def mark_given_def comm_send_def take_rows_def)

theorem dispatch_updates_witness:
  "send_to_worker_and_update_active_and_idle example_numbers example_methods example_work 1
     (example_data, example_io)
   = Ok () (example_data
              \<lparr>man_W := [\<lparr>worker_id = 1, active = 1, persis_state = 1, blocked = False\<rparr>,
                         \<lparr>worker_id = 2, active = 1, persis_state = 0, blocked = True\<rparr>,
                         \<lparr>worker_id = 3, active = 1, persis_state = 0, blocked = True\<rparr>],
               man_hist := example_hist\<lparr>given_count := 2\<rparr>\<rparr>,
            example_io
              \<lparr>sent := [(1, Some 1, PWork example_work),
                        (1, None, PRows [(''x'', [Fin 1, Fin 3])])]\<rparr>)
   \<and> tag example_work \<noteq> 0
   \<and> tag example_work = EVAL_SIM_TAG example_numbers
   \<and> blocking (libE_info example_work) = Some [2, 3]
   \<and> update_history_x_out example_methods (H_rows (libE_info example_work)) 1 example_hist
       = Inr (example_hist\<lparr>given_count := 2\<rparr>)"
proof -
  have t: "tag example_work \<noteq> 0"
    and e: "tag example_work = EVAL_SIM_TAG example_numbers"
    and b: "blocking (libE_info example_work) = Some [2, 3]"
    by (simp_all add: example_work_def example_numbers_def)
  from dispatch_updates [OF example_dispatch t] e
  have "update_history_x_out example_methods (H_rows (libE_info example_work)) 1
          (man_hist example_data) = Inr (example_hist\<lparr>given_count := 2\<rparr>)"
    by simp
  then have "update_history_x_out example_methods (H_rows (libE_info example_work)) 1
          example_hist = Inr (example_hist\<lparr>given_count := 2\<rparr>)"
    by (simp add: example_data_def)
  with example_dispatch t e b show ?thesis by blast
qed


section \<open>Unknown fields in a work unit\<close>




section \<open>Handling a message\<close>

lemma res_state_and_then:
  "res_state (and_then r f) = (case r of Raise e s \<Rightarrow> s | Ok a s \<Rightarrow> res_state (f a s))"
  by (cases r) (simp_all add: and_then_def)

lemma res_state_on_data:
  "res_state (on_data f s) = (res_state (f (fst s)), snd s)"
  by (cases "f (fst s)") (simp_all add: on_data_def)


lemma unblock_workers_frame:
  "length (man_W (res_state (unblock_workers bs d))) = length (man_W d)
   \<and> man_hist (res_state (unblock_workers bs d)) = man_hist d
   \<and> (\<forall>k < length (man_W d).
        persis_state (man_W (res_state (unblock_workers bs d)) ! k) = persis_state (man_W d ! k)
        \<and> (active (man_W d ! k) = 0 \<longrightarrow>
             active (man_W (res_state (unblock_workers bs d)) ! k) = 0))"
proof (induction bs arbitrary: d)
  case Nil
  then show ?case by simp
next
  case (Cons b bs)
  show ?case
  proof (cases "py_index (length (man_W d)) (b - 1)")
    case None
    then show ?thesis by (simp add: W_get_def)
  next
    case (Some j)
    then have jlt: "j < length (man_W d)" by (rule py_index_less)
    let ?d1 = "d\<lparr>man_W := (man_W d)[j := (man_W d ! j)\<lparr>blocked := False, active := 0\<rparr>]\<rparr>"
    have step: "unblock_workers (b # bs) d = unblock_workers bs ?d1"
      using Some by (simp add: W_get_def W_set_def)
    from Cons.IH [of ?d1] jlt show ?thesis
      unfolding step by (auto simp: nth_list_update)
  qed
qed

lemma merge_keys_frame:
  "man_W (res_state (merge_keys w kvs d)) = man_W d
   \<and> man_hist (res_state (merge_keys w kvs d)) = man_hist d"
proof (induction kvs arbitrary: d)
  case Nil
  then show ?case by simp
next
  case (Cons kv kvs)
  obtain key v where kv: "kv = (key, v)" by (cases kv)
  show ?case
  proof (cases "man_persis_info d w")
    case None
    then show ?thesis by (simp add: kv)
  next
    case (Some pw)
    from Cons.IH [of "d\<lparr>man_persis_info := (man_persis_info d)(w \<mapsto> dict_set pw key v)\<rparr>"]
    show ?thesis by (simp add: kv Some)
  qed
qed

lemma release_blocking_frame:
  "length (man_W (res_state (release_blocking D d))) = length (man_W d)
   \<and> man_hist (res_state (release_blocking D d)) = man_hist d
   \<and> (\<forall>k < length (man_W d).
        persis_state (man_W (res_state (release_blocking D d)) ! k) = persis_state (man_W d ! k)
        \<and> (active (man_W d ! k) = 0 \<longrightarrow>
             active (man_W (res_state (release_blocking D d)) ! k) = 0))"
  using unblock_workers_frame [of "the (blocking (the (msg_libE_info D)))" d]
  by (simp add: release_blocking_def)

lemma merge_persis_info_frame:
  "man_W (res_state (merge_persis_info w D d)) = man_W d
   \<and> man_hist (res_state (merge_persis_info w D d)) = man_hist d"
  by (cases "msg_persis_info D") (simp_all add: merge_persis_info_def merge_keys_frame)

lemma record_calc_finished:
  assumes st: "calc_status D \<in> {FINISHED_PERSISTENT_SIM_TAG mn, FINISHED_PERSISTENT_GEN_TAG mn}"
    and k: "py_index (length (man_W d)) (w - 1) = Some k"
  shows "record_calc mn m w D d
           = Ok () (d\<lparr>man_W := (man_W d)[k := (man_W d ! k)\<lparr>active := 0, persis_state := 0\<rparr>]\<rparr>)"
  using st k py_index_less [OF k] by (auto simp: record_calc_def W_get_def W_set_def Let_def)

lemma record_calc_finished_hist:
  assumes st: "calc_status D \<in> {FINISHED_PERSISTENT_SIM_TAG mn, FINISHED_PERSISTENT_GEN_TAG mn}"
  shows "man_hist (res_state (record_calc mn m w D d)) = man_hist d"
  using st by (auto simp: record_calc_def W_get_def Let_def split: option.splits)

text \<open>
  C4. When the message received from worker \<open>w\<close> has \<open>calc_status\<close>
  \<open>FINISHED_PERSISTENT_SIM\<close> or \<open>FINISHED_PERSISTENT_GEN\<close>, handling it leaves the
  history (the array and the counters \<open>index\<close>, \<open>given_count\<close>, \<open>sim_count\<close>) as it
  was, whether the handler returns or raises; and when the handler returns, worker \<open>w\<close>
  has \<open>active = 0\<close> and \<open>persis_state = 0\<close>.
\<close>

theorem finished_persistent_frame:
  assumes rcv: "receive_D_recv mn env w (snd s) = Ok (PCalc D_recv) c"
    and st: "calc_status D_recv
               \<in> {FINISHED_PERSISTENT_SIM_TAG mn, FINISHED_PERSISTENT_GEN_TAG mn}"
  shows "man_hist (fst (res_state (handle_msg_from_worker mn m env w s))) = man_hist (fst s)
       \<and> (calc_type D_recv \<in> {EVAL_SIM_TAG mn, EVAL_GEN_TAG mn}
            \<and> W_get (man_W (fst s)) (w - 1) \<noteq> Inl IndexError \<longrightarrow>
            (\<exists>r. W_get (man_W (fst (res_state (handle_msg_from_worker mn m env w s)))) (w - 1)
                    = Inr r \<and> active r = 0 \<and> persis_state r = 0))
       \<and> (handle_msg_from_worker mn m env w s = Ok u s' \<longrightarrow>
            (\<exists>r. W_get (man_W (fst s')) (w - 1) = Inr r \<and> active r = 0 \<and> persis_state r = 0))"
proof -
  let ?d = "fst s"
  let ?p = "process_D_recv mn m w (PCalc D_recv) ?d"
  have hm: "handle_msg_from_worker mn m env w s = on_data (process_D_recv mn m w (PCalc D_recv)) (?d, c)"
    using rcv by (simp add: handle_msg_from_worker_def)
  have hist: "man_hist (res_state ?p) = man_hist ?d"
  proof (cases "check_received_calc mn D_recv")
    case (Some e)
    then show ?thesis by (simp add: process_D_recv_def)
  next
    case None
    show ?thesis
      using record_calc_finished_hist [OF st, of m w ?d]
      by (cases "record_calc mn m w D_recv ?d";
          cases "release_blocking D_recv (res_state (record_calc mn m w D_recv ?d))")
         (insert release_blocking_frame [of D_recv "res_state (record_calc mn m w D_recv ?d)"]
            merge_persis_info_frame [of w D_recv
              "res_state (release_blocking D_recv (res_state (record_calc mn m w D_recv ?d)))"],
          simp_all add: process_D_recv_def None and_then_def)
  qed
  have row: "\<exists>r. W_get (man_W (res_state ?p)) (w - 1) = Inr r \<and> active r = 0 \<and> persis_state r = 0"
    if chk: "check_received_calc mn D_recv = None"
      and k: "py_index (length (man_W ?d)) (w - 1) = Some k" for k
  proof -
    have klt: "k < length (man_W ?d)" using k by (rule py_index_less)
    define d1 where
      "d1 = ?d\<lparr>man_W := (man_W ?d)[k := (man_W ?d ! k)\<lparr>active := 0, persis_state := 0\<rparr>]\<rparr>"
    have rc: "record_calc mn m w D_recv ?d = Ok () d1"
      unfolding d1_def by (rule record_calc_finished [OF st k])
    let ?r2 = "release_blocking D_recv d1"
    have d1: "length (man_W d1) = length (man_W ?d)" "active (man_W d1 ! k) = 0"
      "persis_state (man_W d1 ! k) = 0"
      using klt by (simp_all add: d1_def)
    with release_blocking_frame [of D_recv d1] klt
    have d2: "length (man_W (res_state ?r2)) = length (man_W ?d)"
      "active (man_W (res_state ?r2) ! k) = 0" "persis_state (man_W (res_state ?r2) ! k) = 0"
      by auto
    have "man_W (res_state ?p) = man_W (res_state ?r2)"
      by (cases ?r2)
         (simp_all add: process_D_recv_def chk rc and_then_def merge_persis_info_frame)
    with d2 k show ?thesis by (simp add: W_get_def)
  qed
  have part2: "\<exists>r. W_get (man_W (res_state ?p)) (w - 1) = Inr r \<and> active r = 0 \<and> persis_state r = 0"
    if "calc_type D_recv \<in> {EVAL_SIM_TAG mn, EVAL_GEN_TAG mn}
          \<and> W_get (man_W ?d) (w - 1) \<noteq> Inl IndexError"
  proof -
    from that st have chk: "check_received_calc mn D_recv = None"
      by (auto simp: check_received_calc_def)
    from that obtain k where "py_index (length (man_W ?d)) (w - 1) = Some k"
      by (auto simp: W_get_def split: option.splits)
    with chk show ?thesis by (rule row)
  qed
  have part3: "\<exists>r. W_get (man_W d') (w - 1) = Inr r \<and> active r = 0 \<and> persis_state r = 0"
    if ok: "?p = Ok u d'" for d'
  proof -
    from ok have chk: "check_received_calc mn D_recv = None"
      by (auto simp: process_D_recv_def split: option.splits)
    with ok obtain d1 where "record_calc mn m w D_recv ?d = Ok () d1"
      by (auto simp: process_D_recv_def and_then_Ok)
    then obtain k where "py_index (length (man_W ?d)) (w - 1) = Some k"
      by (auto simp: record_calc_def W_get_def split: option.splits)
    from row [OF chk this] ok show ?thesis by simp
  qed
  from hist part2 part3 show ?thesis
    unfolding hm by (auto simp: res_state_on_data on_data_Ok)
qed

lemma example_handle_finished:
  "handle_msg_from_worker example_numbers example_methods example_env_msg 1
     (example_busy, example_io) = Ok () (example_data, next_tick example_io)"
  by (simp add: handle_msg_from_worker_def receive_D_recv_def process_D_recv_def
      check_received_calc_def record_calc_def release_blocking_def merge_persis_info_def
      and_then_def on_data_def next_tick_def W_get_def W_set_def py_index_def initial_W_3
      example_numbers_def example_methods_def example_env_msg_def example_env_def
      example_busy_def example_data_def example_io_def example_finished_msg_def)

theorem finished_persistent_frame_witness:
  "receive_D_recv example_numbers example_env_msg 1 example_io
     = Ok (PCalc example_finished_msg) (next_tick example_io)
   \<and> calc_status example_finished_msg
       \<in> {FINISHED_PERSISTENT_SIM_TAG example_numbers,
          FINISHED_PERSISTENT_GEN_TAG example_numbers}
   \<and> calc_type example_finished_msg
       \<in> {EVAL_SIM_TAG example_numbers, EVAL_GEN_TAG example_numbers}
   \<and> W_get (man_W example_busy) (1 - 1) \<noteq> Inl IndexError
   \<and> handle_msg_from_worker example_numbers example_methods example_env_msg 1
       (example_busy, example_io) = Ok () (example_data, next_tick example_io)
   \<and> man_hist example_data = man_hist example_busy
   \<and> (\<exists>r. W_get (man_W example_data) 0 = Inr r \<and> active r = 0 \<and> persis_state r = 0)"
proof -
  have r: "receive_D_recv example_numbers example_env_msg 1 (snd (example_busy, example_io))
     = Ok (PCalc example_finished_msg) (next_tick example_io)"
    by (simp add: receive_D_recv_def example_env_msg_def example_io_def)
  have s: "calc_status example_finished_msg
       \<in> {FINISHED_PERSISTENT_SIM_TAG example_numbers,
          FINISHED_PERSISTENT_GEN_TAG example_numbers}"
    by (simp add: example_finished_msg_def example_numbers_def)
  from finished_persistent_frame [OF r s, of example_methods "()"
      "(example_data, next_tick example_io)"] example_handle_finished
  have "man_hist example_data = man_hist example_busy
      \<and> (\<exists>r. W_get (man_W example_data) (1 - 1) = Inr r \<and> active r = 0 \<and> persis_state r = 0)"
    by simp
  moreover have "calc_type example_finished_msg
       \<in> {EVAL_SIM_TAG example_numbers, EVAL_GEN_TAG example_numbers}"
    "W_get (man_W example_busy) (1 - 1) \<noteq> Inl IndexError"
    by (simp_all add: example_finished_msg_def example_numbers_def example_busy_def W_get_def
        py_index_def)
  ultimately show ?thesis using r s example_handle_finished by simp
qed

text \<open>
  C9. When the receive from worker \<open>w\<close> raises, the manager sends
  \<open>MAN_SIGNAL_REQ_PICKLE_DUMP\<close> on \<open>STOP_TAG\<close> to \<open>w\<close>, receives a path from it,
  loads the payload from that file and removes the file; the payload is then handled
  as one that arrived normally is: in a world where the same payload is received at
  once, the handler ends the same way (returns, or raises the same exception) with the
  same \<open>W\<close>, history and \<open>persis_info\<close>.
\<close>

theorem pickle_dump_recovery:
  assumes "env_recv env (tick c) w = RecvRaises"
    and "env_recv env (Suc (tick c)) w = Recv (PPath path)"
    and "env_load env (Suc (Suc (tick c))) path = Some D_recv"
    and "env_recv env' (tick c') w = Recv D_recv"
  shows "receive_D_recv mn env w c
           = Ok D_recv
               (c\<lparr>sent := sent c @ [(w, Some (STOP_TAG mn),
                                      PSignal (MAN_SIGNAL_REQ_PICKLE_DUMP mn))],
                  removed := removed c @ [path],
                  tick := tick c + 3\<rparr>)
       \<and> on_state fst (handle_msg_from_worker mn m env w (d, c))
           = on_state fst (handle_msg_from_worker mn m env' w (d, c'))"
proof -
  have a: "receive_D_recv mn env w c
           = Ok D_recv
               (c\<lparr>sent := sent c @ [(w, Some (STOP_TAG mn),
                                      PSignal (MAN_SIGNAL_REQ_PICKLE_DUMP mn))],
                  removed := removed c @ [path],
                  tick := tick c + 3\<rparr>)"
    using assms(1-3)
    by (simp add: receive_D_recv_def man_request_pkl_dump_on_error_def next_tick_def
        comm_send_def Let_def)
  have b: "receive_D_recv mn env' w c' = Ok D_recv (next_tick c')"
    using assms(4) by (simp add: receive_D_recv_def)
  have "on_state fst (on_data f (d, x)) = on_state fst (on_data f (d, y))"
    for f :: "mdata \<Rightarrow> (unit, mdata) res" and x y
    by (cases "f d") (simp_all add: on_data_def)
  with a b show ?thesis by (simp add: handle_msg_from_worker_def)
qed

theorem pickle_dump_recovery_witness:
  "env_recv example_env_dump (tick example_io) 1 = RecvRaises
   \<and> env_recv example_env_dump (Suc (tick example_io)) 1 = Recv (PPath ''dump.pkl'')
   \<and> env_load example_env_dump (Suc (Suc (tick example_io))) ''dump.pkl''
       = Some (PCalc example_finished_msg)
   \<and> env_recv example_env_msg (tick example_io) 1 = Recv (PCalc example_finished_msg)
   \<and> receive_D_recv example_numbers example_env_dump 1 example_io
       = Ok (PCalc example_finished_msg)
           (example_io\<lparr>sent := [(1, Some 3, PSignal 23)], removed := [''dump.pkl''],
                       tick := 3\<rparr>)
   \<and> on_state fst (handle_msg_from_worker example_numbers example_methods example_env_dump 1
                      (example_busy, example_io))
       = Ok () example_data"
proof -
  have h: "env_recv example_env_dump (tick example_io) 1 = RecvRaises"
    "env_recv example_env_dump (Suc (tick example_io)) 1 = Recv (PPath ''dump.pkl'')"
    "env_load example_env_dump (Suc (Suc (tick example_io))) ''dump.pkl''
       = Some (PCalc example_finished_msg)"
    "env_recv example_env_msg (tick example_io) 1 = Recv (PCalc example_finished_msg)"
    by (simp_all add: example_env_dump_def example_env_msg_def example_io_def)
  from pickle_dump_recovery [OF h, of example_numbers example_methods example_busy]
    example_handle_finished h
  show ?thesis
    by (simp add: example_io_def example_numbers_def)
qed

section \<open>What every step of the manager keeps\<close>





lemma finish_dests_tick [simp]: "finish_dests mn (next_tick c) = finish_dests mn c"
  by (simp add: finish_dests_def next_tick_def)







lemma finish_dests_removed [simp]: "finish_dests mn (c\<lparr>removed := x\<rparr>) = finish_dests mn c"
  by (simp add: finish_dests_def)

lemma finish_dests_saved [simp]: "finish_dests mn (c\<lparr>saved := x\<rparr>) = finish_dests mn c"
  by (simp add: finish_dests_def)





























section \<open>The array handed to the allocator\<close>






section \<open>The FINISH signal\<close>





section \<open>The exit flag\<close>







section \<open>The allocator\<close>

text \<open>
  C6 is what the allocator's comments ask for ("if any of its calculated values have
  returned, give them back to \<open>i\<close>"), and the code misses it: \<open>inds_to_give\<close> are
  positions among the rows generated by \<open>i\<close>, and are used as row indices of \<open>H\<close>.
  On the example the persistent worker 1 is handed row 1, which has not returned, and
  row 1 is marked \<open>given_back\<close>, while row 2, which has returned and was not given back,
  is neither handed over nor marked.
\<close>

theorem aposmm_alloc_gives_unreturned_row:
  "persistent_aposmm_alloc example_numbers example_alloc_W example_alloc_H
     example_alloc_specs (man_persis_info example_data)
   = Inr ([(1, \<lparr>tag = 2, H_fields = [''x'', ''f'', ''sim_id'', ''x_on_cube''],
                libE_info = \<lparr>H_rows = [1], persistent = Some True, blocking = None\<rparr>,
                work_persis_info = []\<rparr>)],
          man_persis_info example_data,
          [\<lparr>gen_worker = 0, returned = True, given_back = False, given = True\<rparr>,
           \<lparr>gen_worker = 1, returned = False, given_back = True, given = True\<rparr>,
           \<lparr>gen_worker = 1, returned = True, given_back = False, given = True\<rparr>])
   \<and> \<not> returned (example_alloc_H ! 1)
   \<and> returned (example_alloc_H ! 2) \<and> \<not> given_back (example_alloc_H ! 2)
   \<and> gen_worker (example_alloc_H ! 2) = 1"
  by (simp add: persistent_aposmm_alloc_def give_back_def avail_worker_ids_def
      count_persis_gens_def gen_work_def mask_select_def np_where_def py_index_def
      example_alloc_W_def example_alloc_H_def example_alloc_specs_def example_numbers_def
      example_data_def upt_rec)

end
